theory Spec2Isabelle
  imports Main
begin

section \<open>Data model of the PTY manager (src/core/pty-manager.ts, src/types/errors.ts)\<close>

text \<open>
  The enumeration \<^verbatim>\<open>TerminalErrorType\<close> of src/types/errors.ts, constructor for
  constructor.
\<close>

datatype TerminalErrorType =
    PTY_CREATION_FAILED
  | SHELL_NOT_FOUND
  | ELECTRON_NOT_AVAILABLE
  | NODE_PTY_NOT_AVAILABLE
  | PROCESS_TERMINATED
  | VIEW_CREATION_FAILED

text \<open>
  \<^verbatim>\<open>PTYOptions\<close>: the spawn request. The manager reads \<^verbatim>\<open>options.args || []\<close> and
  \<^verbatim>\<open>options.env?.PATH\<close>, so both fields may be absent; an environment is a map from
  variable names to values.
\<close>

record PTYOptions =
  shell :: string
  args :: "string list option"
  cwd :: string
  env :: "(string \<rightharpoonup> string) option"
  cols :: int
  rows :: int

text \<open>
  A thrown value is either a foreign JavaScript error (its \<^verbatim>\<open>name\<close> and \<^verbatim>\<open>message\<close>)
  or a \<^verbatim>\<open>TerminalPluginError\<close> with its four constructor arguments: type, message,
  originalError and context. The only context this file ever attaches is
  \<^verbatim>\<open>{ options }\<close>. The test \<^verbatim>\<open>error instanceof TerminalPluginError\<close> is the test for the
  second constructor.
\<close>

datatype thrown =
    JsError string string
  | TerminalPluginError TerminalErrorType string "thrown option" "PTYOptions option"

text \<open>A PTY handle is an object; the active set compares handles by identity.\<close>

datatype IPty = PtyRef nat

text \<open>
  The object literal \<^verbatim>\<open>spawnOptions\<close> of \<^verbatim>\<open>createPTY\<close>. The key \<^verbatim>\<open>useConpty\<close> is only
  assigned on one branch, so its field is optional: \<open>None\<close> is the absent key.
\<close>

record spawnOptions =
  so_name :: string
  so_cols :: int
  so_rows :: int
  so_cwd :: string
  so_env :: "(string \<rightharpoonup> string) option"
  so_encoding :: string
  so_useConpty :: "bool option"

text \<open>\<^verbatim>\<open>PTYSettingsProvider\<close>: what the registered settings callback yields.\<close>

record PTYSettingsProvider =
  defaultShell :: string
  shellArgs :: "string list"

text \<open>
  The manager's own state: the active set, a JavaScript \<^verbatim>\<open>Set\<close>, kept as the list of its
  members in insertion order (the order \<^verbatim>\<open>Array.from\<close> and \<^verbatim>\<open>forEach\<close> visit them), and
  the settings provider. For the provider, \<open>None\<close> is "no callback registered",
  \<open>Some None\<close> a callback that yields \<^verbatim>\<open>null\<close>, \<open>Some (Some s)\<close> one that yields \<open>s\<close>.
\<close>

record PTYManager =
  activePTYs :: "IPty list"
  settingsProvider :: "PTYSettingsProvider option option"

section \<open>The collaborators\<close>

text \<open>
  Everything the manager calls but does not define (the Electron bridge, the node-pty
  module, the \<^verbatim>\<open>fs\<close> module, \<^verbatim>\<open>process.env\<close>, the methods of a handle, the constant
  \<^verbatim>\<open>DEFAULT_TERMINAL_DIMENSIONS\<close>) is a parameter, gathered in one record.

  A call that the source guards with a \<^verbatim>\<open>try\<close>/\<^verbatim>\<open>catch\<close> of its own may throw, and its
  field returns a sum or an optional thrown value: \<^verbatim>\<open>validateShellSync\<close> (caught in
  \<^verbatim>\<open>validateShellPath\<close>), \<^verbatim>\<open>validateShell\<close> (caught in \<^verbatim>\<open>findAvailableShell\<close>), the
  bridge's \<^verbatim>\<open>getDefaultShell\<close> (caught in \<^verbatim>\<open>getSystemDefaultShell\<close>), \<^verbatim>\<open>nodePty.spawn\<close>
  (caught in \<^verbatim>\<open>createPTY\<close>), \<^verbatim>\<open>pty.kill\<close>, \<^verbatim>\<open>pty.resize\<close> and \<^verbatim>\<open>pty.removeAllListeners\<close>
  (caught in \<^verbatim>\<open>destroyPTY\<close> and \<^verbatim>\<open>resizeAllPTYs\<close>). The plain accessors (\<^verbatim>\<open>getNodePTY\<close>,
  \<^verbatim>\<open>getPtyLoadMode\<close>, \<^verbatim>\<open>getProcess\<close>, \<^verbatim>\<open>getEnvironmentVariables\<close>,
  \<^verbatim>\<open>getCurrentWorkingDirectory\<close>, \<^verbatim>\<open>fs.existsSync\<close>), the registration \<^verbatim>\<open>pty.on\<close> and the
  console are taken to return normally.

  \<open>getNodePTY\<close> is \<open>None\<close> when the bridge returns \<^verbatim>\<open>null\<close>, and otherwise the module's
  \<^verbatim>\<open>spawn\<close> function.
\<close>

record world =
  getNodePTY :: "(string \<Rightarrow> string list \<Rightarrow> spawnOptions \<Rightarrow> thrown + IPty) option"
  validateShellSync :: "string \<Rightarrow> thrown + bool"
  validateShell :: "string \<Rightarrow> thrown + bool"
  bridgeGetDefaultShell :: "thrown + string"
  platform :: string
  getEnvironmentVariables :: "string \<rightharpoonup> string"
  getCurrentWorkingDirectory :: string
  existsSync :: "string \<Rightarrow> bool"
  HOME :: "string option"
  kill :: "IPty \<Rightarrow> thrown option"
  resize :: "IPty \<Rightarrow> int \<Rightarrow> int \<Rightarrow> thrown option"
  removeAllListeners :: "IPty \<Rightarrow> thrown option"
  DEFAULT_TERMINAL_cols :: int
  DEFAULT_TERMINAL_rows :: int

text \<open>
  The calls a manager operation makes on its collaborators are recorded, in program
  order, so that claims about which checks run, and in which order, can be stated.
  \<open>PtyKill p tracked\<close> records, besides the handle, the content of the active set at the
  moment \<^verbatim>\<open>p.kill()\<close> is called. \<^verbatim>\<open>console.warn\<close> is recorded by the warning's subject;
  \<^verbatim>\<open>console.log\<close> and \<^verbatim>\<open>console.error\<close> are not recorded.
\<close>

datatype warning =
    CwdFallback
  | ShellCheckFailed thrown
  | KillFailed thrown
  | ResizeFailed thrown
  | ConfiguredShellInvalid string

datatype call =
    GetNodePTY
  | GetPtyLoadMode
  | GetProcess
  | GetEnvironmentVariables
  | GetCurrentWorkingDirectory
  | BridgeGetDefaultShell
  | ValidateShellSync string
  | ValidateShell string
  | ExistsSync string
  | Spawn string "string list" spawnOptions
  | PtyOn IPty string
  | PtyKill IPty "IPty list"
  | PtyResize IPty int int
  | PtyRemoveAllListeners IPty
  | ConsoleWarn warning

section \<open>JavaScript helpers\<close>

text \<open>\<^verbatim>\<open>Set.prototype.add\<close>, \<^verbatim>\<open>delete\<close> and \<^verbatim>\<open>has\<close> on the insertion-ordered list.\<close>

definition set_add :: "IPty list \<Rightarrow> IPty \<Rightarrow> IPty list" where
  "set_add xs p = (if p \<in> set xs then xs else xs @ [p])"

definition set_delete :: "IPty list \<Rightarrow> IPty \<Rightarrow> IPty list" where
  "set_delete xs p = removeAll p xs"

definition set_has :: "IPty list \<Rightarrow> IPty \<Rightarrow> bool" where
  "set_has xs p = (p \<in> set xs)"

text \<open>
  \<^verbatim>\<open>v || d\<close> on an optional string: the default is taken when the value is \<^verbatim>\<open>undefined\<close>
  and also when it is the empty string, which JavaScript counts as false.
\<close>

definition or_default :: "string option \<Rightarrow> string \<Rightarrow> string" where
  "or_default v d = (case v of None \<Rightarrow> d | Some s \<Rightarrow> if s = [] then d else s)"

text \<open>\<^verbatim>\<open>error.message\<close> and \<^verbatim>\<open>String(error)\<close> (\<^verbatim>\<open>Error.prototype.toString\<close>).\<close>

fun error_message :: "thrown \<Rightarrow> string" where
  "error_message (JsError n msg) = msg"
| "error_message (TerminalPluginError ty msg orig ctx) = msg"

fun error_name :: "thrown \<Rightarrow> string" where
  "error_name (JsError n msg) = n"
| "error_name (TerminalPluginError ty msg orig ctx) = ''TerminalPluginError''"

definition error_toString :: "thrown \<Rightarrow> string" where
  "error_toString e =
     (if error_name e = [] then error_message e
      else if error_message e = [] then error_name e
      else error_name e @ '': '' @ error_message e)"

fun is_TerminalPluginError :: "thrown \<Rightarrow> bool" where
  "is_TerminalPluginError (JsError n msg) = False"
| "is_TerminalPluginError (TerminalPluginError ty msg orig ctx) = True"

section \<open>The PTY manager\<close>

subsection \<open>validateShellPath\<close>

definition validateShellPath :: "world \<Rightarrow> string \<Rightarrow> bool \<times> call list" where
  "validateShellPath w shellPath =
     (case validateShellSync w shellPath of
        Inr b \<Rightarrow> (b, [ValidateShellSync shellPath])
      | Inl e \<Rightarrow> (False, [ValidateShellSync shellPath, ConsoleWarn (ShellCheckFailed e)]))"

subsection \<open>createPTY\<close>

text \<open>\<^verbatim>\<open>process.env.HOME || "/"\<close>.\<close>

definition home_fallback :: "world \<Rightarrow> string" where
  "home_fallback w = or_default (HOME w) ''/''"

text \<open>The object literal \<^verbatim>\<open>spawnOptions\<close> and the platform-gated assignment after it.\<close>

definition build_spawnOptions :: "world \<Rightarrow> PTYOptions \<Rightarrow> spawnOptions" where
  "build_spawnOptions w options =
     (let isWindows = (platform w = ''win32'');
          spawnOptions = \<lparr> so_name = ''xterm-256color'',
                           so_cols = cols options,
                           so_rows = rows options,
                           so_cwd = cwd options,
                           so_env = env options,
                           so_encoding = ''utf8'',
                           so_useConpty = None \<rparr>
      in if isWindows then spawnOptions\<lparr> so_useConpty := Some True \<rparr> else spawnOptions)"

text \<open>
  The body of the \<^verbatim>\<open>try\<close> block. The result is what the block returns or throws, the
  caller's options object as the block leaves it (the block assigns \<^verbatim>\<open>options.cwd\<close>), the
  manager's state and the calls made.
\<close>

definition createPTY_try ::
  "world \<Rightarrow> PTYManager \<Rightarrow> PTYOptions \<Rightarrow> (thrown + IPty) \<times> PTYOptions \<times> PTYManager \<times> call list" where
  "createPTY_try w m options =
     (case getNodePTY w of
        None \<Rightarrow>
          (Inl (TerminalPluginError NODE_PTY_NOT_AVAILABLE ''node-pty module is not available'' None None),
           options, m, [GetNodePTY, GetPtyLoadMode])
      | Some nodePty_spawn \<Rightarrow>
          (let (shellExists, t1) = validateShellPath w (shell options) in
           if \<not> shellExists then
             (Inl (TerminalPluginError SHELL_NOT_FOUND (''Shell not found: '' @ shell options) None None),
              options, m, [GetNodePTY, GetPtyLoadMode] @ t1)
           else
             (let cwdExists = existsSync w (cwd options);
                  t2 = (if \<not> cwdExists then [ExistsSync (cwd options), ConsoleWarn CwdFallback]
                        else [ExistsSync (cwd options)]);
                  options1 = (if \<not> cwdExists then options\<lparr> cwd := home_fallback w \<rparr> else options);
                  spawnOptions = build_spawnOptions w options1;
                  spawn_args = (case args options1 of Some a \<Rightarrow> a | None \<Rightarrow> []);
                  t3 = [GetNodePTY, GetPtyLoadMode] @ t1 @ t2 @
                       [GetProcess, Spawn (shell options1) spawn_args spawnOptions]
              in case nodePty_spawn (shell options1) spawn_args spawnOptions of
                   Inl e \<Rightarrow> (Inl e, options1, m, t3)
                 | Inr pty \<Rightarrow>
                     (Inr pty, options1,
                      m\<lparr> activePTYs := set_add (activePTYs m) pty \<rparr>,
                      t3 @ [PtyOn pty ''error'', PtyOn pty ''exit'']))))"

text \<open>
  The \<^verbatim>\<open>catch\<close> block: a \<^verbatim>\<open>TerminalPluginError\<close> is rethrown as it is, anything else is
  wrapped, with the options object as context. The context holds a reference to the
  caller's object, so it shows the object as the \<^verbatim>\<open>try\<close> block left it.
\<close>

definition createPTY ::
  "world \<Rightarrow> PTYManager \<Rightarrow> PTYOptions \<Rightarrow> (thrown + IPty) \<times> PTYOptions \<times> PTYManager \<times> call list" where
  "createPTY w m options =
     (case createPTY_try w m options of
        (Inr pty, options', m', t) \<Rightarrow> (Inr pty, options', m', t)
      | (Inl error, options', m', t) \<Rightarrow>
          (if is_TerminalPluginError error then (Inl error, options', m', t)
           else
             (Inl (TerminalPluginError PTY_CREATION_FAILED
                     (''Failed to create PTY process: '' @
                        (if error_message error \<noteq> [] then error_message error else error_toString error))
                     (Some error) (Some options')),
              options', m', t)))"

text \<open>
  The observers \<^verbatim>\<open>createPTY\<close> registers for \<^verbatim>\<open>"error"\<close> and \<^verbatim>\<open>"exit"\<close>: both delete the
  handle from the active set when the bridge invokes them later.
\<close>

definition on_pty_event :: "PTYManager \<Rightarrow> IPty \<Rightarrow> PTYManager" where
  "on_pty_event m pty = m\<lparr> activePTYs := set_delete (activePTYs m) pty \<rparr>"

subsection \<open>destroyPTY, getActivePTYCount, cleanup, resizeAllPTYs\<close>

definition destroyPTY ::
  "world \<Rightarrow> PTYManager \<Rightarrow> IPty \<Rightarrow> (thrown + unit) \<times> PTYManager \<times> call list" where
  "destroyPTY w m pty =
     (if set_has (activePTYs m) pty then
        (let m1 = m\<lparr> activePTYs := set_delete (activePTYs m) pty \<rparr>;
             t1 = (case kill w pty of
                     None \<Rightarrow> [PtyKill pty (activePTYs m1)]
                   | Some e \<Rightarrow> [PtyKill pty (activePTYs m1), ConsoleWarn (KillFailed e)])
         in case removeAllListeners w pty of
              None \<Rightarrow> (Inr (), m1, t1 @ [PtyRemoveAllListeners pty])
            | Some e \<Rightarrow>
                (Inl (TerminalPluginError PTY_CREATION_FAILED ''Failed to destroy PTY process''
                        (Some e) None),
                 m1, t1 @ [PtyRemoveAllListeners pty]))
      else (Inr (), m, []))"

definition getActivePTYCount :: "PTYManager \<Rightarrow> nat" where
  "getActivePTYCount m = length (activePTYs m)"

text \<open>
  \<^verbatim>\<open>ptysToDestroy.forEach((pty) => this.destroyPTY(pty))\<close>: the callback's exception leaves
  the loop, so the entries after it are not visited.
\<close>

fun destroy_each ::
  "world \<Rightarrow> PTYManager \<Rightarrow> IPty list \<Rightarrow> (thrown + unit) \<times> PTYManager \<times> call list" where
  "destroy_each w m [] = (Inr (), m, [])"
| "destroy_each w m (pty # rest) =
     (case destroyPTY w m pty of
        (Inl e, m1, t1) \<Rightarrow> (Inl e, m1, t1)
      | (Inr u, m1, t1) \<Rightarrow>
          (case destroy_each w m1 rest of (r, m2, t2) \<Rightarrow> (r, m2, t1 @ t2)))"

definition cleanup :: "world \<Rightarrow> PTYManager \<Rightarrow> (thrown + unit) \<times> PTYManager \<times> call list" where
  "cleanup w m =
     (let ptysToDestroy = activePTYs m in
      case destroy_each w m ptysToDestroy of
        (Inl e, m1, t) \<Rightarrow> (Inl e, m1, t)
      | (Inr u, m1, t) \<Rightarrow> (Inr (), m1\<lparr> activePTYs := [] \<rparr>, t))"

text \<open>\<^verbatim>\<open>resizeAllPTYs\<close>: every handle's resize has a \<^verbatim>\<open>try\<close>/\<^verbatim>\<open>catch\<close> of its own.\<close>

fun resize_each :: "world \<Rightarrow> int \<Rightarrow> int \<Rightarrow> IPty list \<Rightarrow> call list" where
  "resize_each w c r [] = []"
| "resize_each w c r (pty # rest) =
     (case resize w pty c r of
        None \<Rightarrow> PtyResize pty c r # resize_each w c r rest
      | Some e \<Rightarrow> PtyResize pty c r # ConsoleWarn (ResizeFailed e) # resize_each w c r rest)"

definition resizeAllPTYs :: "world \<Rightarrow> PTYManager \<Rightarrow> int \<Rightarrow> int \<Rightarrow> call list" where
  "resizeAllPTYs w m c r = resize_each w c r (activePTYs m)"

subsection \<open>getDefaultShell\<close>

definition getSystemDefaultShell :: "world \<Rightarrow> string \<times> call list" where
  "getSystemDefaultShell w =
     (case bridgeGetDefaultShell w of
        Inr s \<Rightarrow> (s, [BridgeGetDefaultShell])
      | Inl e \<Rightarrow>
          (if platform w = ''win32'' then ''cmd.exe''
           else if platform w = ''darwin'' then ''/bin/zsh''
           else if platform w = ''linux'' then ''/bin/bash''
           else ''/bin/sh'',
           [BridgeGetDefaultShell, GetProcess]))"

text \<open>
  \<^verbatim>\<open>getDefaultShell\<close> calls the bridge's \<^verbatim>\<open>validateShellSync\<close> directly, outside any
  \<^verbatim>\<open>try\<close>, so what that call throws leaves \<^verbatim>\<open>getDefaultShell\<close>.
\<close>

definition getDefaultShell :: "world \<Rightarrow> PTYManager \<Rightarrow> (thrown + string) \<times> call list" where
  "getDefaultShell w m =
     (let system_default = (case getSystemDefaultShell w of (s, t) \<Rightarrow> (Inr s, t)) in
      case settingsProvider m of
        None \<Rightarrow> system_default
      | Some None \<Rightarrow> system_default
      | Some (Some settings) \<Rightarrow>
          (if defaultShell settings = [] then system_default
           else
             (case validateShellSync w (defaultShell settings) of
                Inl e \<Rightarrow> (Inl e, [ValidateShellSync (defaultShell settings)])
              | Inr True \<Rightarrow> (Inr (defaultShell settings), [ValidateShellSync (defaultShell settings)])
              | Inr False \<Rightarrow>
                  (case getSystemDefaultShell w of
                     (s, t) \<Rightarrow>
                       (Inr s,
                        [ValidateShellSync (defaultShell settings),
                         ConsoleWarn (ConfiguredShellInvalid (defaultShell settings))] @ t)))))"

subsection \<open>getDefaultOptions\<close>

text \<open>
  The local \<^verbatim>\<open>utf8Env\<close> of \<^verbatim>\<open>getDefaultOptions\<close>: the spread of the base environment, the
  three locale keys, and the two keys assigned on win32.
\<close>

definition utf8Env :: "world \<Rightarrow> (string \<rightharpoonup> string)" where
  "utf8Env w =
     (let baseEnv = getEnvironmentVariables w;
          e = baseEnv(''LANG'' \<mapsto> or_default (baseEnv ''LANG'') ''zh_CN.UTF-8'',
                      ''LC_ALL'' \<mapsto> or_default (baseEnv ''LC_ALL'') ''zh_CN.UTF-8'',
                      ''LC_CTYPE'' \<mapsto> or_default (baseEnv ''LC_CTYPE'') ''zh_CN.UTF-8'')
      in if platform w = ''win32''
         then e(''CHCP'' \<mapsto> ''65001'', ''PYTHONIOENCODING'' \<mapsto> ''utf-8'')
         else e)"

definition getDefaultOptions :: "world \<Rightarrow> PTYManager \<Rightarrow> (thrown + PTYOptions) \<times> call list" where
  "getDefaultOptions w m =
     (let shellArgs = (case settingsProvider m of
                         Some (Some settings) \<Rightarrow> shellArgs settings
                       | _ \<Rightarrow> [])
      in case getDefaultShell w m of
           (Inl e, t) \<Rightarrow> (Inl e, [GetEnvironmentVariables, GetProcess] @ t)
         | (Inr s, t) \<Rightarrow>
             (Inr \<lparr> shell = s,
                    args = Some shellArgs,
                    cwd = getCurrentWorkingDirectory w,
                    env = Some (utf8Env w),
                    cols = DEFAULT_TERMINAL_cols w,
                    rows = DEFAULT_TERMINAL_rows w \<rparr>,
              [GetEnvironmentVariables, GetProcess] @ t @ [GetCurrentWorkingDirectory]))"

subsection \<open>getAlternativeShells, findAvailableShell\<close>

text \<open>The path separator of the Windows entries, the character with code 0x5C.\<close>

definition bs :: string where
  "bs = [CHR 0x5C]"

definition getAlternativeShells :: "world \<Rightarrow> string list" where
  "getAlternativeShells w =
     (if platform w = ''win32'' then
        [''powershell.exe'',
         ''cmd.exe'',
         ''C:'' @ bs @ ''Windows'' @ bs @ ''System32'' @ bs @ ''WindowsPowerShell'' @ bs @
           ''v1.0'' @ bs @ ''powershell.exe'',
         ''C:'' @ bs @ ''Windows'' @ bs @ ''System32'' @ bs @ ''cmd.exe'']
      else if platform w = ''darwin'' then
        [''/bin/zsh'', ''/bin/bash'', ''/bin/sh'', ''/usr/local/bin/zsh'', ''/usr/local/bin/bash'']
      else if platform w = ''linux'' then
        [''/bin/bash'', ''/bin/sh'', ''/bin/zsh'', ''/usr/bin/bash'', ''/usr/bin/sh'', ''/usr/bin/zsh'']
      else [''/bin/sh''])"

text \<open>
  The \<^verbatim>\<open>for\<close> loop of \<^verbatim>\<open>findAvailableShell\<close>: one awaited check per candidate, the next
  one only after the previous has settled.
\<close>

fun probe_shells :: "world \<Rightarrow> string list \<Rightarrow> string option \<times> call list" where
  "probe_shells w [] = (None, [])"
| "probe_shells w (s # rest) =
     (case validateShell w s of
        Inr True \<Rightarrow> (Some s, [ValidateShell s])
      | Inr False \<Rightarrow> (case probe_shells w rest of (r, t) \<Rightarrow> (r, ValidateShell s # t))
      | Inl e \<Rightarrow> (case probe_shells w rest of (r, t) \<Rightarrow> (r, ValidateShell s # t)))"

definition findAvailableShell :: "world \<Rightarrow> PTYManager \<Rightarrow> (thrown + string) \<times> call list" where
  "findAvailableShell w m =
     (case probe_shells w (getAlternativeShells w) of
        (Some s, t) \<Rightarrow> (Inr s, GetProcess # t)
      | (None, t) \<Rightarrow> (case getDefaultShell w m of (r, t') \<Rightarrow> (r, GetProcess # t @ t')))"

section \<open>Reading a trace\<close>

text \<open>The calls of a trace that are spawns.\<close>

fun is_Spawn :: "call \<Rightarrow> bool" where
  "is_Spawn (Spawn sh as so) = True"
| "is_Spawn c = False"

text \<open>The handles of a trace on which \<^verbatim>\<open>kill\<close> was called, in the order of the calls.\<close>

fun killed :: "call list \<Rightarrow> IPty list" where
  "killed [] = []"
| "killed (PtyKill p tracked # cs) = p # killed cs"
| "killed (c # cs) = killed cs"

section \<open>Concrete collaborators and inputs\<close>

text \<open>
  A Linux host on which \<^verbatim>\<open>/bin/bash\<close> passes the synchronous check, the check of
  \<^verbatim>\<open>/opt/fish\<close> throws, the spawn succeeds in \<^verbatim>\<open>/home/u\<close> only, killing the handle 1
  fails and releasing the observers of the handle 3 fails.
\<close>

definition example_spawn :: "string \<Rightarrow> string list \<Rightarrow> spawnOptions \<Rightarrow> thrown + IPty" where
  "example_spawn sh as so =
     (if so_cwd so = ''/home/u'' then Inr (PtyRef 7)
      else Inl (JsError ''Error'' ''posix_spawnp failed.''))"

definition example_world :: world where
  "example_world =
     \<lparr> getNodePTY = Some example_spawn,
       validateShellSync =
         (\<lambda>p. if p = ''/bin/bash'' then Inr True
              else if p = ''/opt/fish'' then Inl (JsError ''Error'' ''EACCES'')
              else Inr False),
       validateShell =
         (\<lambda>p. if p = ''/bin/sh'' then Inr True
              else if p = ''/bin/bash'' then Inl (JsError ''Error'' ''EIO'')
              else Inr False),
       bridgeGetDefaultShell = Inr ''/bin/bash'',
       platform = ''linux'',
       getEnvironmentVariables = [''LANG'' \<mapsto> '''', ''LC_ALL'' \<mapsto> ''C'', ''PATH'' \<mapsto> ''/usr/bin''],
       getCurrentWorkingDirectory = ''/home/u/vault'',
       existsSync = (\<lambda>p. p = ''/home/u'' \<or> p = ''/home/u/vault''),
       HOME = Some ''/home/u'',
       kill = (\<lambda>p. if p = PtyRef 1 then Some (JsError ''Error'' ''ESRCH'') else None),
       resize = (\<lambda>p c r. None),
       removeAllListeners =
         (\<lambda>p. if p = PtyRef 3 then Some (JsError ''TypeError'' ''not a function'') else None),
       DEFAULT_TERMINAL_cols = 80,
       DEFAULT_TERMINAL_rows = 24 \<rparr>"

definition example_options :: PTYOptions where
  "example_options =
     \<lparr> shell = ''/bin/bash'', args = None, cwd = ''/nonexistent'', env = None, cols = 80, rows = 24 \<rparr>"

definition example_manager :: PTYManager where
  "example_manager = \<lparr> activePTYs = [PtyRef 1, PtyRef 2], settingsProvider = None \<rparr>"


text \<open>
  A manager tracking the handles 3 and 2, in this order, and one whose settings name
  the shell \<^verbatim>\<open>/opt/fish\<close>.
\<close>

definition example_manager_32 :: PTYManager where
  "example_manager_32 = \<lparr> activePTYs = [PtyRef 3, PtyRef 2], settingsProvider = None \<rparr>"

definition example_manager_fish :: PTYManager where
  "example_manager_fish =
     \<lparr> activePTYs = [],
       settingsProvider = Some (Some \<lparr> defaultShell = ''/opt/fish'', shellArgs = [] \<rparr>) \<rparr>"

section \<open>Properties\<close>

subsection \<open>Auxiliary facts\<close>

lemma tuple4: "x = (fst x, fst (snd x), fst (snd (snd x)), snd (snd (snd x)))"
  by simp

lemma tuple3: "x = (fst x, fst (snd x), snd (snd x))"
  by simp

lemma validateShellPath_calls:
  "snd (validateShellPath w p) = [ValidateShellSync p] \<or>
   (\<exists>e. snd (validateShellPath w p) = [ValidateShellSync p, ConsoleWarn (ShellCheckFailed e)])"
  by (simp add: validateShellPath_def split: sum.splits)

lemma createPTY_unavailable:
  "getNodePTY w = None \<Longrightarrow>
   createPTY w m options =
     (Inl (TerminalPluginError NODE_PTY_NOT_AVAILABLE ''node-pty module is not available'' None None),
      options, m, [GetNodePTY, GetPtyLoadMode])"
  by (simp add: createPTY_def createPTY_try_def)

lemma createPTY_shell_not_found:
  "getNodePTY w = Some sp \<Longrightarrow> \<not> fst (validateShellPath w (shell options)) \<Longrightarrow>
   createPTY w m options =
     (Inl (TerminalPluginError SHELL_NOT_FOUND (''Shell not found: '' @ shell options) None None),
      options, m, [GetNodePTY, GetPtyLoadMode] @ snd (validateShellPath w (shell options)))"
  by (cases "validateShellPath w (shell options)") (simp add: createPTY_def createPTY_try_def)

lemma createPTY_try_spawned:
  "getNodePTY w = Some sp \<Longrightarrow> fst (validateShellPath w (shell options)) \<Longrightarrow>
   options1 = (if existsSync w (cwd options) then options else options\<lparr> cwd := home_fallback w \<rparr>) \<Longrightarrow>
   spawn_args = (case args options of Some a \<Rightarrow> a | None \<Rightarrow> []) \<Longrightarrow>
   t3 = [GetNodePTY, GetPtyLoadMode] @ snd (validateShellPath w (shell options)) @
        (if existsSync w (cwd options) then [ExistsSync (cwd options)]
         else [ExistsSync (cwd options), ConsoleWarn CwdFallback]) @
        [GetProcess, Spawn (shell options) spawn_args (build_spawnOptions w options1)] \<Longrightarrow>
   createPTY_try w m options =
     (case sp (shell options) spawn_args (build_spawnOptions w options1) of
        Inl e \<Rightarrow> (Inl e, options1, m, t3)
      | Inr pty \<Rightarrow> (Inr pty, options1, m\<lparr> activePTYs := set_add (activePTYs m) pty \<rparr>,
                    t3 @ [PtyOn pty ''error'', PtyOn pty ''exit'']))"
  by (cases "validateShellPath w (shell options)")
     (simp add: createPTY_try_def Let_def split: sum.splits)

subsection \<open>Validation order of createPTY\<close>

text \<open>
  Claim C1. \<^verbatim>\<open>createPTY\<close> validates in a fixed order and stops at the first failure.
  When the bridge has no node-pty module, the call throws the error of type
  \<^verbatim>\<open>NODE_PTY_NOT_AVAILABLE\<close> and the only calls made are the two accessors of the bridge:
  the shell is never checked. When the module is there and the shell fails
  \<^verbatim>\<open>validateShellPath\<close>, the call throws the error of type \<^verbatim>\<open>SHELL_NOT_FOUND\<close>, and after the
  shell check (with its warning, if the check itself threw) nothing else runs: no
  \<^verbatim>\<open>existsSync\<close>, no platform query, no spawn.
\<close>

theorem createPTY_validation_order:
  assumes "createPTY w m options = (r, options', m', t)"
  shows "(getNodePTY w = None \<longrightarrow>
            r = Inl (TerminalPluginError NODE_PTY_NOT_AVAILABLE
                       ''node-pty module is not available'' None None) \<and>
            t = [GetNodePTY, GetPtyLoadMode] \<and>
            (\<forall>p. ValidateShellSync p \<notin> set t)) \<and>
         (getNodePTY w \<noteq> None \<and> \<not> fst (validateShellPath w (shell options)) \<longrightarrow>
            r = Inl (TerminalPluginError SHELL_NOT_FOUND
                       (''Shell not found: '' @ shell options) None None) \<and>
            (t = [GetNodePTY, GetPtyLoadMode, ValidateShellSync (shell options)] \<or>
             (\<exists>e. t = [GetNodePTY, GetPtyLoadMode, ValidateShellSync (shell options),
                        ConsoleWarn (ShellCheckFailed e)])) \<and>
            (\<forall>p. ExistsSync p \<notin> set t) \<and> GetProcess \<notin> set t \<and>
            (\<forall>sh as so. Spawn sh as so \<notin> set t))"
proof (intro conjI impI)
  assume "getNodePTY w = None"
  then have "(r, options', m', t) =
     (Inl (TerminalPluginError NODE_PTY_NOT_AVAILABLE ''node-pty module is not available'' None None),
      options, m, [GetNodePTY, GetPtyLoadMode])"
    unfolding assms [symmetric] by (rule createPTY_unavailable)
  then show
    "r = Inl (TerminalPluginError NODE_PTY_NOT_AVAILABLE ''node-pty module is not available'' None None)"
    and "t = [GetNodePTY, GetPtyLoadMode]" and "\<forall>p. ValidateShellSync p \<notin> set t"
    by auto
next
  assume h: "getNodePTY w \<noteq> None \<and> \<not> fst (validateShellPath w (shell options))"
  then obtain sp where sp: "getNodePTY w = Some sp" by auto
  from h have bad: "\<not> fst (validateShellPath w (shell options))" by simp
  have "(r, options', m', t) =
     (Inl (TerminalPluginError SHELL_NOT_FOUND (''Shell not found: '' @ shell options) None None),
      options, m, [GetNodePTY, GetPtyLoadMode] @ snd (validateShellPath w (shell options)))"
    unfolding assms [symmetric] by (rule createPTY_shell_not_found [OF sp bad])
  then have r: "r = Inl (TerminalPluginError SHELL_NOT_FOUND (''Shell not found: '' @ shell options) None None)"
    and t: "t = [GetNodePTY, GetPtyLoadMode] @ snd (validateShellPath w (shell options))"
    by simp_all
  show "r = Inl (TerminalPluginError SHELL_NOT_FOUND (''Shell not found: '' @ shell options) None None)"
    by (rule r)
  show "t = [GetNodePTY, GetPtyLoadMode, ValidateShellSync (shell options)] \<or>
        (\<exists>e. t = [GetNodePTY, GetPtyLoadMode, ValidateShellSync (shell options),
                   ConsoleWarn (ShellCheckFailed e)])"
    using validateShellPath_calls [of w "shell options"] t by auto
  then show "\<forall>p. ExistsSync p \<notin> set t" and "GetProcess \<notin> set t"
    and "\<forall>sh as so. Spawn sh as so \<notin> set t"
    by auto
qed

text \<open>
  The two failures at concrete inputs: the example host without the module, and the
  example host asked for the shell \<^verbatim>\<open>/opt/none\<close>, which its check rejects.
\<close>

theorem createPTY_validation_order_witness:
  "getNodePTY (example_world\<lparr> getNodePTY := None \<rparr>) = None \<and>
   fst (createPTY (example_world\<lparr> getNodePTY := None \<rparr>) example_manager
          (example_options\<lparr> shell := ''/opt/none'' \<rparr>)) =
     Inl (TerminalPluginError NODE_PTY_NOT_AVAILABLE ''node-pty module is not available'' None None) \<and>
   getNodePTY example_world \<noteq> None \<and>
   \<not> fst (validateShellPath example_world (shell (example_options\<lparr> shell := ''/opt/none'' \<rparr>))) \<and>
   fst (createPTY example_world example_manager (example_options\<lparr> shell := ''/opt/none'' \<rparr>)) =
     Inl (TerminalPluginError SHELL_NOT_FOUND ''Shell not found: /opt/none'' None None)"
proof -
  let ?w1 = "example_world\<lparr> getNodePTY := None \<rparr>"
  let ?o = "example_options\<lparr> shell := ''/opt/none'' \<rparr>"
  have a: "getNodePTY ?w1 = None" by simp
  have b: "getNodePTY example_world \<noteq> None" by (simp add: example_world_def)
  have c: "\<not> fst (validateShellPath example_world (shell ?o))"
    by (simp add: validateShellPath_def example_world_def example_options_def)
  from createPTY_validation_order [OF tuple4 [of "createPTY ?w1 example_manager ?o"]] a
  have d: "fst (createPTY ?w1 example_manager ?o) =
     Inl (TerminalPluginError NODE_PTY_NOT_AVAILABLE ''node-pty module is not available'' None None)"
    by blast
  from createPTY_validation_order [OF tuple4 [of "createPTY example_world example_manager ?o"]] b c
  have "fst (createPTY example_world example_manager ?o) =
     Inl (TerminalPluginError SHELL_NOT_FOUND (''Shell not found: '' @ shell ?o) None None)"
    by blast
  then have e: "fst (createPTY example_world example_manager ?o) =
     Inl (TerminalPluginError SHELL_NOT_FOUND ''Shell not found: /opt/none'' None None)"
    by (simp add: example_options_def)
  from a d b c e show ?thesis by blast
qed

subsection \<open>A rejected shell leaves the active set alone\<close>

text \<open>
  Claim C2. With the node-pty module available and a shell that fails
  \<^verbatim>\<open>validateShellPath\<close>, \<^verbatim>\<open>createPTY\<close> throws the error of type \<^verbatim>\<open>SHELL_NOT_FOUND\<close> and the
  active set is the one before the call: no handle is inserted and
  \<^verbatim>\<open>getActivePTYCount\<close> returns the same number before and after.
\<close>

theorem createPTY_invalid_shell_active_set_unchanged:
  assumes "createPTY w m options = (r, options', m', t)"
    and "getNodePTY w \<noteq> None"
    and "\<not> fst (validateShellPath w (shell options))"
  shows "r = Inl (TerminalPluginError SHELL_NOT_FOUND
                    (''Shell not found: '' @ shell options) None None) \<and>
         activePTYs m' = activePTYs m \<and>
         getActivePTYCount m' = getActivePTYCount m"
proof -
  from assms(2) obtain sp where sp: "getNodePTY w = Some sp" by auto
  have "(r, options', m', t) =
     (Inl (TerminalPluginError SHELL_NOT_FOUND (''Shell not found: '' @ shell options) None None),
      options, m, [GetNodePTY, GetPtyLoadMode] @ snd (validateShellPath w (shell options)))"
    unfolding assms(1) [symmetric] by (rule createPTY_shell_not_found [OF sp assms(3)])
  then have "r = Inl (TerminalPluginError SHELL_NOT_FOUND (''Shell not found: '' @ shell options) None None)"
    and "m' = m"
    by simp_all
  then show ?thesis by simp
qed

text \<open>
  On the example host the check of \<^verbatim>\<open>/opt/fish\<close> throws, which counts as a failed check;
  the two tracked handles stay tracked.
\<close>

theorem createPTY_invalid_shell_active_set_unchanged_witness:
  "getNodePTY example_world \<noteq> None \<and>
   \<not> fst (validateShellPath example_world (shell (example_options\<lparr> shell := ''/opt/fish'' \<rparr>))) \<and>
   fst (createPTY example_world example_manager (example_options\<lparr> shell := ''/opt/fish'' \<rparr>)) =
     Inl (TerminalPluginError SHELL_NOT_FOUND ''Shell not found: /opt/fish'' None None) \<and>
   getActivePTYCount
     (fst (snd (snd (createPTY example_world example_manager
                       (example_options\<lparr> shell := ''/opt/fish'' \<rparr>))))) = 2"
proof -
  let ?o = "example_options\<lparr> shell := ''/opt/fish'' \<rparr>"
  let ?x = "createPTY example_world example_manager ?o"
  have b: "getNodePTY example_world \<noteq> None" by (simp add: example_world_def)
  have c: "\<not> fst (validateShellPath example_world (shell ?o))"
    by (simp add: validateShellPath_def example_world_def example_options_def)
  from createPTY_invalid_shell_active_set_unchanged [OF tuple4 [of ?x] b c]
  have "fst ?x = Inl (TerminalPluginError SHELL_NOT_FOUND (''Shell not found: '' @ shell ?o) None None)"
    and "getActivePTYCount (fst (snd (snd ?x))) = getActivePTYCount example_manager"
    by blast+
  then have "fst ?x = Inl (TerminalPluginError SHELL_NOT_FOUND ''Shell not found: /opt/fish'' None None)"
    and "getActivePTYCount (fst (snd (snd ?x))) = 2"
    by (simp_all add: example_options_def example_manager_def getActivePTYCount_def)
  with b c show ?thesis by blast
qed

lemma Spawn_notin_validateShellPath [simp]: "Spawn sh as so \<notin> set (snd (validateShellPath w p))"
  by (simp add: validateShellPath_def split: sum.splits)

lemma createPTY_spawned:
  assumes "getNodePTY w = Some sp" and "fst (validateShellPath w (shell options))"
    and "options1 = (if existsSync w (cwd options) then options else options\<lparr> cwd := home_fallback w \<rparr>)"
    and "spawn_args = (case args options of Some a \<Rightarrow> a | None \<Rightarrow> [])"
    and "t3 = [GetNodePTY, GetPtyLoadMode] @ snd (validateShellPath w (shell options)) @
        (if existsSync w (cwd options) then [ExistsSync (cwd options)]
         else [ExistsSync (cwd options), ConsoleWarn CwdFallback]) @
        [GetProcess, Spawn (shell options) spawn_args (build_spawnOptions w options1)]"
  shows "createPTY w m options =
     (case sp (shell options) spawn_args (build_spawnOptions w options1) of
        Inl e \<Rightarrow>
          (if is_TerminalPluginError e then Inl e
           else Inl (TerminalPluginError PTY_CREATION_FAILED
                       (''Failed to create PTY process: '' @
                          (if error_message e \<noteq> [] then error_message e else error_toString e))
                       (Some e) (Some options1)),
           options1, m, t3)
      | Inr pty \<Rightarrow> (Inr pty, options1, m\<lparr> activePTYs := set_add (activePTYs m) pty \<rparr>,
                    t3 @ [PtyOn pty ''error'', PtyOn pty ''exit'']))"
  unfolding createPTY_def createPTY_try_spawned [OF assms]
  by (simp split: sum.splits)

lemma createPTY_spawn_calls:
  assumes "createPTY w m options = (r, options', m', t)" and "Spawn sh as so \<in> set t"
  shows "so = build_spawnOptions w options' \<and> sh = shell options \<and>
         as = (case args options of Some a \<Rightarrow> a | None \<Rightarrow> [])"
proof (cases "getNodePTY w")
  case None
  have "(r, options', m', t) =
     (Inl (TerminalPluginError NODE_PTY_NOT_AVAILABLE ''node-pty module is not available'' None None),
      options, m, [GetNodePTY, GetPtyLoadMode])"
    unfolding assms(1) [symmetric] by (rule createPTY_unavailable [OF None])
  then have "t = [GetNodePTY, GetPtyLoadMode]" by simp
  with assms(2) show ?thesis by simp
next
  case (Some sp)
  show ?thesis
  proof (cases "fst (validateShellPath w (shell options))")
    case False
    have "(r, options', m', t) =
       (Inl (TerminalPluginError SHELL_NOT_FOUND (''Shell not found: '' @ shell options) None None),
        options, m, [GetNodePTY, GetPtyLoadMode] @ snd (validateShellPath w (shell options)))"
      unfolding assms(1) [symmetric] by (rule createPTY_shell_not_found [OF Some False])
    then have "t = [GetNodePTY, GetPtyLoadMode] @ snd (validateShellPath w (shell options))"
      by simp
    with assms(2) show ?thesis by simp
  next
    case True
    from assms show ?thesis
      unfolding createPTY_spawned [OF Some True refl refl refl]
      by (auto split: sum.splits if_splits)
  qed
qed

subsection \<open>The ConPTY flag is gated on the platform\<close>

text \<open>
  Claim C5. Whatever the options and the platform, a spawn configuration that
  \<^verbatim>\<open>createPTY\<close> passes to \<^verbatim>\<open>nodePty.spawn\<close> has the key \<^verbatim>\<open>useConpty\<close> (set to true) when the
  platform is \<^verbatim>\<open>win32\<close>, and has no such key on any other platform.
\<close>

theorem createPTY_useConpty_only_on_win32:
  assumes "createPTY w m options = (r, options', m', t)" and "Spawn sh as so \<in> set t"
  shows "(platform w = ''win32'' \<longrightarrow> so_useConpty so = Some True) \<and>
         (platform w \<noteq> ''win32'' \<longrightarrow> so_useConpty so = None)"
proof -
  from createPTY_spawn_calls [OF assms] have "so = build_spawnOptions w options'" by simp
  then show ?thesis by (simp add: build_spawnOptions_def Let_def)
qed


text \<open>
  The example host spawns \<^verbatim>\<open>/bin/bash\<close> in \<^verbatim>\<open>/home/u\<close>: with the flag when its platform is
  set to \<^verbatim>\<open>win32\<close>, without it on \<^verbatim>\<open>linux\<close>.
\<close>

theorem createPTY_useConpty_only_on_win32_witness:
  "Spawn ''/bin/bash'' []
      \<lparr> so_name = ''xterm-256color'', so_cols = 80, so_rows = 24, so_cwd = ''/home/u'',
        so_env = None, so_encoding = ''utf8'', so_useConpty = Some True \<rparr>
     \<in> set (snd (snd (snd (createPTY (example_world\<lparr> platform := ''win32'' \<rparr>)
                                example_manager example_options)))) \<and>
   platform (example_world\<lparr> platform := ''win32'' \<rparr>) = ''win32'' \<and>
   Spawn ''/bin/bash'' []
      \<lparr> so_name = ''xterm-256color'', so_cols = 80, so_rows = 24, so_cwd = ''/home/u'',
        so_env = None, so_encoding = ''utf8'', so_useConpty = None \<rparr>
     \<in> set (snd (snd (snd (createPTY example_world example_manager example_options)))) \<and>
   platform example_world \<noteq> ''win32''"
proof -
  let ?win = "example_world\<lparr> platform := ''win32'' \<rparr>"
  let ?so = "\<lparr> so_name = ''xterm-256color'', so_cols = 80, so_rows = 24, so_cwd = ''/home/u'',
        so_env = None, so_encoding = ''utf8'', so_useConpty = None \<rparr>"
  have sp: "getNodePTY example_world = Some example_spawn" "getNodePTY ?win = Some example_spawn"
    by (simp_all add: example_world_def)
  have ok: "fst (validateShellPath example_world (shell example_options))"
    "fst (validateShellPath ?win (shell example_options))"
    by (simp_all add: validateShellPath_def example_world_def example_options_def)
  have p1: "platform ?win = ''win32''" by simp
  have p2: "platform example_world \<noteq> ''win32''" by (simp add: example_world_def)
  have "\<exists>u. Spawn ''/bin/bash'' [] (?so\<lparr> so_useConpty := u \<rparr>)
     \<in> set (snd (snd (snd (createPTY ?win example_manager example_options))))"
    unfolding createPTY_spawned [OF sp(2) ok(2) refl refl refl]
    by (simp add: example_world_def example_options_def example_spawn_def build_spawnOptions_def
          home_fallback_def or_default_def)
  then obtain u where u: "Spawn ''/bin/bash'' [] (?so\<lparr> so_useConpty := u \<rparr>)
     \<in> set (snd (snd (snd (createPTY ?win example_manager example_options))))"
    by blast
  from createPTY_useConpty_only_on_win32 [OF tuple4 u] p1 have "u = Some True" by simp
  with u have a: "Spawn ''/bin/bash'' [] (?so\<lparr> so_useConpty := Some True \<rparr>)
     \<in> set (snd (snd (snd (createPTY ?win example_manager example_options))))"
    by simp
  have "\<exists>u. Spawn ''/bin/bash'' [] (?so\<lparr> so_useConpty := u \<rparr>)
     \<in> set (snd (snd (snd (createPTY example_world example_manager example_options))))"
    unfolding createPTY_spawned [OF sp(1) ok(1) refl refl refl]
    by (simp add: example_world_def example_options_def example_spawn_def build_spawnOptions_def
          home_fallback_def or_default_def)
  then obtain v where v: "Spawn ''/bin/bash'' [] (?so\<lparr> so_useConpty := v \<rparr>)
     \<in> set (snd (snd (snd (createPTY example_world example_manager example_options))))"
    by blast
  from createPTY_useConpty_only_on_win32 [OF tuple4 v] p2 have "v = None" by simp
  with v have b: "Spawn ''/bin/bash'' [] ?so
     \<in> set (snd (snd (snd (createPTY example_world example_manager example_options))))"
    by simp
  from a p1 b p2 show ?thesis by simp
qed

subsection \<open>A missing working directory is replaced, not reported\<close>

lemma is_Spawn_validateShellPath [simp]: "filter is_Spawn (snd (validateShellPath w p)) = []"
  by (simp add: validateShellPath_def split: sum.splits)

text \<open>
  The whole outcome of \<^verbatim>\<open>createPTY\<close> when the module is there, the shell is valid and
  \<^verbatim>\<open>options.cwd\<close> does not exist, with the substituted directory and the spawn
  configuration written out.
\<close>

lemma createPTY_missing_cwd:
  assumes "getNodePTY w = Some sp"
    and "fst (validateShellPath w (shell options))"
    and "\<not> existsSync w (cwd options)"
    and "home = (case HOME w of None \<Rightarrow> ''/'' | Some h \<Rightarrow> if h = [] then ''/'' else h)"
    and "as = (case args options of None \<Rightarrow> [] | Some a \<Rightarrow> a)"
    and "so = \<lparr> so_name = ''xterm-256color'', so_cols = cols options, so_rows = rows options,
                so_cwd = home, so_env = env options, so_encoding = ''utf8'',
                so_useConpty = (if platform w = ''win32'' then Some True else None) \<rparr>"
    and "t3 = [GetNodePTY, GetPtyLoadMode] @ snd (validateShellPath w (shell options)) @
              [ExistsSync (cwd options), ConsoleWarn CwdFallback, GetProcess,
               Spawn (shell options) as so]"
  shows "createPTY w m options =
     (case sp (shell options) as so of
        Inl e \<Rightarrow>
          (Inl (if is_TerminalPluginError e then e
                else TerminalPluginError PTY_CREATION_FAILED
                       (''Failed to create PTY process: '' @
                          (if error_message e \<noteq> [] then error_message e else error_toString e))
                       (Some e) (Some (options\<lparr> cwd := home \<rparr>))),
           options\<lparr> cwd := home \<rparr>, m, t3)
      | Inr pty \<Rightarrow>
          (Inr pty, options\<lparr> cwd := home \<rparr>,
           m\<lparr> activePTYs := set_add (activePTYs m) pty \<rparr>,
           t3 @ [PtyOn pty ''error'', PtyOn pty ''exit'']))"
proof -
  have home: "home_fallback w = home"
    using assms(4) by (simp add: home_fallback_def or_default_def)
  have so: "build_spawnOptions w (options\<lparr> cwd := home \<rparr>) = so"
    using assms(6) by (simp add: build_spawnOptions_def Let_def)
  show ?thesis
    unfolding createPTY_spawned [OF assms(1) assms(2) refl refl refl]
    using assms(3) by (simp add: home so assms(5) assms(7) split: sum.splits)
qed

text \<open>
  Claim C4, as stated, has \<^verbatim>\<open>createPTY\<close> raise no error related to the working directory
  and proceed to spawn successfully, for every options record whose \<^verbatim>\<open>cwd\<close> does not
  exist. The substituted directory is not checked. On the example host with the home
  directory \<^verbatim>\<open>/home/gone\<close>, which does not exist either, the request for \<^verbatim>\<open>/nonexistent\<close>
  is spawned in \<^verbatim>\<open>/home/gone\<close>, the spawn fails there, and \<^verbatim>\<open>createPTY\<close> throws the error
  of type \<^verbatim>\<open>PTY_CREATION_FAILED\<close>. The same host spawns the same shell in the existing
  directory \<^verbatim>\<open>/home/u\<close>.
\<close>

theorem createPTY_missing_cwd_spawn_may_fail:
  "getNodePTY (example_world\<lparr> HOME := Some ''/home/gone'' \<rparr>) = Some example_spawn \<and>
   fst (validateShellPath (example_world\<lparr> HOME := Some ''/home/gone'' \<rparr>)
          (shell example_options)) \<and>
   cwd example_options = ''/nonexistent'' \<and>
   \<not> existsSync (example_world\<lparr> HOME := Some ''/home/gone'' \<rparr>) ''/nonexistent'' \<and>
   \<not> existsSync (example_world\<lparr> HOME := Some ''/home/gone'' \<rparr>) ''/home/gone'' \<and>
   fst (createPTY (example_world\<lparr> HOME := Some ''/home/gone'' \<rparr>)
          example_manager example_options) =
     Inl (TerminalPluginError PTY_CREATION_FAILED
            ''Failed to create PTY process: posix_spawnp failed.''
            (Some (JsError ''Error'' ''posix_spawnp failed.''))
            (Some (example_options\<lparr> cwd := ''/home/gone'' \<rparr>))) \<and>
   existsSync (example_world\<lparr> HOME := Some ''/home/gone'' \<rparr>) ''/home/u'' \<and>
   fst (createPTY (example_world\<lparr> HOME := Some ''/home/gone'' \<rparr>)
          example_manager (example_options\<lparr> cwd := ''/home/u'' \<rparr>)) = Inr (PtyRef 7)"
proof -
  let ?w = "example_world\<lparr> HOME := Some ''/home/gone'' \<rparr>"
  let ?o = "example_options\<lparr> cwd := ''/home/u'' \<rparr>"
  have a: "getNodePTY ?w = Some example_spawn" by (simp add: example_world_def)
  have b: "fst (validateShellPath ?w (shell example_options))"
    by (simp add: validateShellPath_def example_world_def example_options_def)
  have b': "fst (validateShellPath ?w (shell ?o))"
    by (simp add: validateShellPath_def example_world_def example_options_def)
  have c: "cwd example_options = ''/nonexistent''" by (simp add: example_options_def)
  have d: "\<not> existsSync ?w ''/nonexistent''" and e: "\<not> existsSync ?w ''/home/gone''"
    and g: "existsSync ?w ''/home/u''"
    by (simp_all add: example_world_def)
  from d c have d': "\<not> existsSync ?w (cwd example_options)" by simp
  have f: "fst (createPTY ?w example_manager example_options) =
     Inl (TerminalPluginError PTY_CREATION_FAILED
            ''Failed to create PTY process: posix_spawnp failed.''
            (Some (JsError ''Error'' ''posix_spawnp failed.''))
            (Some (example_options\<lparr> cwd := ''/home/gone'' \<rparr>)))"
    unfolding createPTY_missing_cwd [OF a b d' refl refl refl refl]
    by (simp add: example_spawn_def)
  have h: "fst (createPTY ?w example_manager ?o) = Inr (PtyRef 7)"
    unfolding createPTY_spawned [OF a b' refl refl refl]
    using g by (simp add: example_spawn_def build_spawnOptions_def Let_def)
  from a b c d e f g h show ?thesis by simp
qed

text \<open>
  Claim C4, amended. For every options record whose \<^verbatim>\<open>cwd\<close> does not exist, with the
  module available and a valid shell, \<^verbatim>\<open>createPTY\<close> raises no error of its own for the
  missing directory. It substitutes the user's home directory \<^verbatim>\<open>process.env.HOME\<close>, or
  \<^verbatim>\<open>/\<close> when the home directory is unknown (the variable is unset or empty), and calls
  spawn exactly once, with the substituted directory as the working directory of the
  spawn configuration. What the call returns is then decided by that spawn alone: the
  handle when the spawn returns one; and when the spawn throws, the spawn's failure,
  unchanged if it is a \<^verbatim>\<open>TerminalPluginError\<close> already and otherwise wrapped in an error of
  type \<^verbatim>\<open>PTY_CREATION_FAILED\<close> whose original error is the spawn's. So \<^verbatim>\<open>createPTY\<close>
  raises only if the spawn itself throws.
\<close>

theorem createPTY_missing_cwd_substituted:
  assumes "createPTY w m options = (r, options', m', t)"
    and "getNodePTY w = Some sp"
    and "fst (validateShellPath w (shell options))"
    and "\<not> existsSync w (cwd options)"
  shows "\<exists>home as so.
           home = (case HOME w of None \<Rightarrow> ''/'' | Some h \<Rightarrow> if h = [] then ''/'' else h) \<and>
           as = (case args options of None \<Rightarrow> [] | Some a \<Rightarrow> a) \<and>
           so = \<lparr> so_name = ''xterm-256color'', so_cols = cols options, so_rows = rows options,
                  so_cwd = home, so_env = env options, so_encoding = ''utf8'',
                  so_useConpty = (if platform w = ''win32'' then Some True else None) \<rparr> \<and>
           [c \<leftarrow> t. is_Spawn c] = [Spawn (shell options) as so] \<and>
           (\<forall>pty. sp (shell options) as so = Inr pty \<longrightarrow> r = Inr pty) \<and>
           (\<forall>e. sp (shell options) as so = Inl e \<longrightarrow>
                r = Inl (if is_TerminalPluginError e then e
                         else TerminalPluginError PTY_CREATION_FAILED
                                (''Failed to create PTY process: '' @
                                   (if error_message e \<noteq> [] then error_message e
                                    else error_toString e))
                                (Some e) (Some (options\<lparr> cwd := home \<rparr>)))) \<and>
           (\<forall>x. r = Inl x \<longrightarrow> (\<exists>e. sp (shell options) as so = Inl e))"
proof -
  define home where "home = (case HOME w of None \<Rightarrow> ''/'' | Some h \<Rightarrow> if h = [] then ''/'' else h)"
  define as where "as = (case args options of None \<Rightarrow> [] | Some a \<Rightarrow> a)"
  define so where "so = \<lparr> so_name = ''xterm-256color'', so_cols = cols options, so_rows = rows options,
                  so_cwd = home, so_env = env options, so_encoding = ''utf8'',
                  so_useConpty = (if platform w = ''win32'' then Some True else None) \<rparr>"
  define t3 where "t3 = [GetNodePTY, GetPtyLoadMode] @ snd (validateShellPath w (shell options)) @
              [ExistsSync (cwd options), ConsoleWarn CwdFallback, GetProcess,
               Spawn (shell options) as so]"
  have spawn_only: "[c \<leftarrow> t3. is_Spawn c] = [Spawn (shell options) as so]"
    by (simp add: t3_def)
  have eq: "(r, options', m', t) =
     (case sp (shell options) as so of
        Inl e \<Rightarrow>
          (Inl (if is_TerminalPluginError e then e
                else TerminalPluginError PTY_CREATION_FAILED
                       (''Failed to create PTY process: '' @
                          (if error_message e \<noteq> [] then error_message e else error_toString e))
                       (Some e) (Some (options\<lparr> cwd := home \<rparr>))),
           options\<lparr> cwd := home \<rparr>, m, t3)
      | Inr pty \<Rightarrow>
          (Inr pty, options\<lparr> cwd := home \<rparr>,
           m\<lparr> activePTYs := set_add (activePTYs m) pty \<rparr>,
           t3 @ [PtyOn pty ''error'', PtyOn pty ''exit'']))"
    unfolding assms(1) [symmetric]
    by (rule createPTY_missing_cwd [OF assms(2) assms(3) assms(4) home_def as_def so_def t3_def])
  have calls: "[c \<leftarrow> t. is_Spawn c] = [Spawn (shell options) as so]"
  proof (cases "sp (shell options) as so")
    case (Inl e)
    with eq have "t = t3" by simp
    with spawn_only show ?thesis by simp
  next
    case (Inr pty)
    with eq have "t = t3 @ [PtyOn pty ''error'', PtyOn pty ''exit'']" by simp
    with spawn_only show ?thesis by simp
  qed
  have ok: "\<forall>pty. sp (shell options) as so = Inr pty \<longrightarrow> r = Inr pty"
    using eq by auto
  have err: "\<forall>e. sp (shell options) as so = Inl e \<longrightarrow>
                r = Inl (if is_TerminalPluginError e then e
                         else TerminalPluginError PTY_CREATION_FAILED
                                (''Failed to create PTY process: '' @
                                   (if error_message e \<noteq> [] then error_message e
                                    else error_toString e))
                                (Some e) (Some (options\<lparr> cwd := home \<rparr>)))"
    using eq by auto
  have only: "\<forall>x. r = Inl x \<longrightarrow> (\<exists>e. sp (shell options) as so = Inl e)"
    using eq by (cases "sp (shell options) as so") auto
  from home_def as_def so_def calls ok err only show ?thesis by blast
qed

text \<open>
  On the example host, whose home directory is \<^verbatim>\<open>/home/u\<close>, the request for the missing
  directory \<^verbatim>\<open>/nonexistent\<close> is spawned in \<^verbatim>\<open>/home/u\<close> and returns the handle 7. With
  the home directory \<^verbatim>\<open>/home/gone\<close> it is spawned there, and the spawn's error comes back
  wrapped.
\<close>

theorem createPTY_missing_cwd_substituted_witness:
  "getNodePTY example_world = Some example_spawn \<and>
   fst (validateShellPath example_world (shell example_options)) \<and>
   \<not> existsSync example_world (cwd example_options) \<and>
   HOME example_world = Some ''/home/u'' \<and>
   [c \<leftarrow> snd (snd (snd (createPTY example_world example_manager example_options))). is_Spawn c] =
     [Spawn ''/bin/bash'' []
        \<lparr> so_name = ''xterm-256color'', so_cols = 80, so_rows = 24, so_cwd = ''/home/u'',
          so_env = None, so_encoding = ''utf8'', so_useConpty = None \<rparr>] \<and>
   fst (createPTY example_world example_manager example_options) = Inr (PtyRef 7) \<and>
   fst (createPTY (example_world\<lparr> HOME := Some ''/home/gone'' \<rparr>) example_manager example_options) =
     Inl (TerminalPluginError PTY_CREATION_FAILED
            ''Failed to create PTY process: posix_spawnp failed.''
            (Some (JsError ''Error'' ''posix_spawnp failed.''))
            (Some (example_options\<lparr> cwd := ''/home/gone'' \<rparr>)))"
proof -
  let ?x = "createPTY example_world example_manager example_options"
  let ?w = "example_world\<lparr> HOME := Some ''/home/gone'' \<rparr>"
  let ?y = "createPTY ?w example_manager example_options"
  let ?so = "\<lparr> so_name = ''xterm-256color'', so_cols = 80, so_rows = 24, so_cwd = ''/home/u'',
          so_env = None, so_encoding = ''utf8'', so_useConpty = None \<rparr>"
  let ?so' = "\<lparr> so_name = ''xterm-256color'', so_cols = 80, so_rows = 24, so_cwd = ''/home/gone'',
          so_env = None, so_encoding = ''utf8'', so_useConpty = None \<rparr>"
  have a: "getNodePTY example_world = Some example_spawn"
    and a': "getNodePTY ?w = Some example_spawn"
    by (simp_all add: example_world_def)
  have b: "fst (validateShellPath example_world (shell example_options))"
    and b': "fst (validateShellPath ?w (shell example_options))"
    by (simp_all add: validateShellPath_def example_world_def example_options_def)
  have c: "\<not> existsSync example_world (cwd example_options)"
    and c': "\<not> existsSync ?w (cwd example_options)"
    by (simp_all add: example_world_def example_options_def)
  have d: "HOME example_world = Some ''/home/u''" by (simp add: example_world_def)
  from createPTY_missing_cwd_substituted [OF tuple4 [of ?x] a b c]
  obtain home as so where
    home: "home = (case HOME example_world of None \<Rightarrow> ''/'' | Some h \<Rightarrow> if h = [] then ''/'' else h)"
    and as: "as = (case args example_options of None \<Rightarrow> [] | Some a \<Rightarrow> a)"
    and so: "so = \<lparr> so_name = ''xterm-256color'', so_cols = cols example_options,
                    so_rows = rows example_options, so_cwd = home, so_env = env example_options,
                    so_encoding = ''utf8'',
                    so_useConpty = (if platform example_world = ''win32'' then Some True else None) \<rparr>"
    and calls: "[c \<leftarrow> snd (snd (snd ?x)). is_Spawn c] = [Spawn (shell example_options) as so]"
    and ok: "\<forall>pty. example_spawn (shell example_options) as so = Inr pty \<longrightarrow> fst ?x = Inr pty"
    by blast
  from home d have home': "home = ''/home/u''" by simp
  from as have as': "as = []" by (simp add: example_options_def)
  from so home' have so': "so = ?so" by (simp add: example_options_def example_world_def)
  from calls as' so' have e: "[c \<leftarrow> snd (snd (snd ?x)). is_Spawn c] = [Spawn ''/bin/bash'' [] ?so]"
    by (simp add: example_options_def)
  have "example_spawn (shell example_options) as so = Inr (PtyRef 7)"
    by (simp add: so' example_spawn_def)
  with ok have f: "fst ?x = Inr (PtyRef 7)" by blast
  from createPTY_missing_cwd_substituted [OF tuple4 [of ?y] a' b' c']
  obtain home2 as2 so2 where
    home2: "home2 = (case HOME ?w of None \<Rightarrow> ''/'' | Some h \<Rightarrow> if h = [] then ''/'' else h)"
    and so2: "so2 = \<lparr> so_name = ''xterm-256color'', so_cols = cols example_options,
                    so_rows = rows example_options, so_cwd = home2, so_env = env example_options,
                    so_encoding = ''utf8'',
                    so_useConpty = (if platform ?w = ''win32'' then Some True else None) \<rparr>"
    and err: "\<forall>e. example_spawn (shell example_options) as2 so2 = Inl e \<longrightarrow>
                fst ?y = Inl (if is_TerminalPluginError e then e
                         else TerminalPluginError PTY_CREATION_FAILED
                                (''Failed to create PTY process: '' @
                                   (if error_message e \<noteq> [] then error_message e
                                    else error_toString e))
                                (Some e) (Some (example_options\<lparr> cwd := home2 \<rparr>)))"
    by blast
  from home2 have home2': "home2 = ''/home/gone''" by simp
  have "example_spawn (shell example_options) as2 so2 = Inl (JsError ''Error'' ''posix_spawnp failed.'')"
    by (simp add: so2 home2' example_spawn_def)
  with err have "fst ?y = Inl (if is_TerminalPluginError (JsError ''Error'' ''posix_spawnp failed.'')
                         then JsError ''Error'' ''posix_spawnp failed.''
                         else TerminalPluginError PTY_CREATION_FAILED
                                (''Failed to create PTY process: '' @
                                   (if error_message (JsError ''Error'' ''posix_spawnp failed.'') \<noteq> []
                                    then error_message (JsError ''Error'' ''posix_spawnp failed.'')
                                    else error_toString (JsError ''Error'' ''posix_spawnp failed.'')))
                                (Some (JsError ''Error'' ''posix_spawnp failed.''))
                                (Some (example_options\<lparr> cwd := home2 \<rparr>)))"
    by blast
  then have g: "fst ?y = Inl (TerminalPluginError PTY_CREATION_FAILED
            ''Failed to create PTY process: posix_spawnp failed.''
            (Some (JsError ''Error'' ''posix_spawnp failed.''))
            (Some (example_options\<lparr> cwd := ''/home/gone'' \<rparr>)))"
    by (simp add: home2')
  from a b c d e f g show ?thesis by simp
qed

subsection \<open>The substitution is written into the caller's options\<close>



subsection \<open>destroyPTY\<close>

lemma destroyPTY_untracked:
  "pty \<notin> set (activePTYs m) \<Longrightarrow> destroyPTY w m pty = (Inr (), m, [])"
  by (simp add: destroyPTY_def set_has_def)

lemma destroyPTY_tracked:
  "pty \<in> set (activePTYs m) \<Longrightarrow>
   destroyPTY w m pty =
     (case removeAllListeners w pty of
        None \<Rightarrow> Inr ()
      | Some e \<Rightarrow> Inl (TerminalPluginError PTY_CREATION_FAILED ''Failed to destroy PTY process''
                        (Some e) None),
      m\<lparr> activePTYs := removeAll pty (activePTYs m) \<rparr>,
      PtyKill pty (removeAll pty (activePTYs m)) #
      (case kill w pty of None \<Rightarrow> [] | Some e \<Rightarrow> [ConsoleWarn (KillFailed e)]) @
      [PtyRemoveAllListeners pty])"
  by (simp add: destroyPTY_def set_has_def set_delete_def Let_def split: option.splits)

text \<open>
  Claim C6. \<^verbatim>\<open>destroyPTY\<close> on a handle that is not in the active set returns normally,
  leaves the manager as it is and calls nothing. On a tracked handle it removes the
  handle (and only it) from the active set first: the active set at the moment \<^verbatim>\<open>kill\<close>
  is called, the first call made, no longer holds the handle. A failing \<^verbatim>\<open>kill\<close> is
  logged by a warning and has no part in the result, which is decided by the release of
  the observers alone. After either call the handle is untracked, so a second
  \<^verbatim>\<open>destroyPTY\<close> on it is the no-op.
\<close>

theorem destroyPTY_idempotent:
  assumes "destroyPTY w m pty = (r, m', t)"
  shows "(pty \<notin> set (activePTYs m) \<longrightarrow> r = Inr () \<and> m' = m \<and> t = []) \<and>
         (pty \<in> set (activePTYs m) \<longrightarrow>
            activePTYs m' = removeAll pty (activePTYs m) \<and>
            pty \<notin> set (activePTYs m') \<and>
            (\<exists>tracked rest. t = PtyKill pty tracked # rest \<and> pty \<notin> set tracked) \<and>
            (\<forall>e. kill w pty = Some e \<longrightarrow> ConsoleWarn (KillFailed e) \<in> set t) \<and>
            r = (case removeAllListeners w pty of
                   None \<Rightarrow> Inr ()
                 | Some e \<Rightarrow> Inl (TerminalPluginError PTY_CREATION_FAILED
                                   ''Failed to destroy PTY process'' (Some e) None))) \<and>
         destroyPTY w m' pty = (Inr (), m', []) \<and>
         getActivePTYCount (fst (snd (destroyPTY w m' pty))) = getActivePTYCount m'"
proof -
  have untracked: "pty \<notin> set (activePTYs m) \<longrightarrow> r = Inr () \<and> m' = m \<and> t = []"
  proof
    assume "pty \<notin> set (activePTYs m)"
    then have "(r, m', t) = (Inr (), m, [])"
      unfolding assms [symmetric] by (rule destroyPTY_untracked)
    then show "r = Inr () \<and> m' = m \<and> t = []" by simp
  qed
  have tracked: "pty \<in> set (activePTYs m) \<longrightarrow>
            activePTYs m' = removeAll pty (activePTYs m) \<and>
            pty \<notin> set (activePTYs m') \<and>
            (\<exists>tracked rest. t = PtyKill pty tracked # rest \<and> pty \<notin> set tracked) \<and>
            (\<forall>e. kill w pty = Some e \<longrightarrow> ConsoleWarn (KillFailed e) \<in> set t) \<and>
            r = (case removeAllListeners w pty of
                   None \<Rightarrow> Inr ()
                 | Some e \<Rightarrow> Inl (TerminalPluginError PTY_CREATION_FAILED
                                   ''Failed to destroy PTY process'' (Some e) None))"
  proof
    assume "pty \<in> set (activePTYs m)"
    then have eq: "(r, m', t) =
     (case removeAllListeners w pty of
        None \<Rightarrow> Inr ()
      | Some e \<Rightarrow> Inl (TerminalPluginError PTY_CREATION_FAILED ''Failed to destroy PTY process''
                        (Some e) None),
      m\<lparr> activePTYs := removeAll pty (activePTYs m) \<rparr>,
      PtyKill pty (removeAll pty (activePTYs m)) #
      (case kill w pty of None \<Rightarrow> [] | Some e \<Rightarrow> [ConsoleWarn (KillFailed e)]) @
      [PtyRemoveAllListeners pty])"
      unfolding assms [symmetric] by (rule destroyPTY_tracked)
    then show "activePTYs m' = removeAll pty (activePTYs m) \<and>
            pty \<notin> set (activePTYs m') \<and>
            (\<exists>tracked rest. t = PtyKill pty tracked # rest \<and> pty \<notin> set tracked) \<and>
            (\<forall>e. kill w pty = Some e \<longrightarrow> ConsoleWarn (KillFailed e) \<in> set t) \<and>
            r = (case removeAllListeners w pty of
                   None \<Rightarrow> Inr ()
                 | Some e \<Rightarrow> Inl (TerminalPluginError PTY_CREATION_FAILED
                                   ''Failed to destroy PTY process'' (Some e) None))"
      by auto
  qed
  have gone: "pty \<notin> set (activePTYs m')"
    using untracked tracked by (cases "pty \<in> set (activePTYs m)") auto
  then have again: "destroyPTY w m' pty = (Inr (), m', [])"
    by (rule destroyPTY_untracked)
  then have count: "getActivePTYCount (fst (snd (destroyPTY w m' pty))) = getActivePTYCount m'"
    by simp
  from untracked tracked again count show ?thesis by blast
qed

text \<open>
  On the example host the handle 9 is not tracked and destroying it changes nothing; the
  handle 1 is tracked and its \<^verbatim>\<open>kill\<close> fails, yet destroying it returns normally and
  leaves the handle 2 alone.
\<close>

theorem destroyPTY_idempotent_witness:
  "PtyRef 9 \<notin> set (activePTYs example_manager) \<and>
   destroyPTY example_world example_manager (PtyRef 9) = (Inr (), example_manager, []) \<and>
   PtyRef 1 \<in> set (activePTYs example_manager) \<and>
   kill example_world (PtyRef 1) = Some (JsError ''Error'' ''ESRCH'') \<and>
   fst (destroyPTY example_world example_manager (PtyRef 1)) = Inr () \<and>
   activePTYs (fst (snd (destroyPTY example_world example_manager (PtyRef 1)))) = [PtyRef 2] \<and>
   ConsoleWarn (KillFailed (JsError ''Error'' ''ESRCH''))
     \<in> set (snd (snd (destroyPTY example_world example_manager (PtyRef 1))))"
proof -
  let ?x = "destroyPTY example_world example_manager (PtyRef 1)"
  let ?y = "destroyPTY example_world example_manager (PtyRef 9)"
  have a: "PtyRef 9 \<notin> set (activePTYs example_manager)" by (simp add: example_manager_def)
  have b: "PtyRef 1 \<in> set (activePTYs example_manager)" by (simp add: example_manager_def)
  have c: "kill example_world (PtyRef 1) = Some (JsError ''Error'' ''ESRCH'')"
    by (simp add: example_world_def)
  have d: "removeAllListeners example_world (PtyRef 1) = None"
    by (simp add: example_world_def)
  from destroyPTY_idempotent [OF tuple3 [of ?y]] a
  have "fst ?y = Inr () \<and> fst (snd ?y) = example_manager \<and> snd (snd ?y) = []"
    by blast
  then have e: "?y = (Inr (), example_manager, [])"
    by (metis tuple3)
  from destroyPTY_idempotent [OF tuple3 [of ?x]] b
  have f: "activePTYs (fst (snd ?x)) = removeAll (PtyRef 1) (activePTYs example_manager)"
    and g: "\<forall>e. kill example_world (PtyRef 1) = Some e \<longrightarrow> ConsoleWarn (KillFailed e) \<in> set (snd (snd ?x))"
    and h: "fst ?x = (case removeAllListeners example_world (PtyRef 1) of
                   None \<Rightarrow> Inr ()
                 | Some e \<Rightarrow> Inl (TerminalPluginError PTY_CREATION_FAILED
                                   ''Failed to destroy PTY process'' (Some e) None))"
    by blast+
  from f have f': "activePTYs (fst (snd ?x)) = [PtyRef 2]" by (simp add: example_manager_def)
  from g c have g': "ConsoleWarn (KillFailed (JsError ''Error'' ''ESRCH'')) \<in> set (snd (snd ?x))"
    by blast
  from h d have h': "fst ?x = Inr ()" by simp
  from a e b c h' f' g' show ?thesis by blast
qed

text \<open>
  A handle whose \<^verbatim>\<open>"exit"\<close> or \<^verbatim>\<open>"error"\<close> observer has run is untracked, so destroying it
  afterwards is the no-op as well.
\<close>

lemma destroyPTY_after_pty_event:
  "destroyPTY w (on_pty_event m pty) pty = (Inr (), on_pty_event m pty, [])"
  by (rule destroyPTY_untracked) (simp add: on_pty_event_def set_delete_def)

subsection \<open>resizeAllPTYs\<close>

text \<open>
  \<^verbatim>\<open>resizeAllPTYs\<close> isolates the entries: every tracked handle is resized, whatever the
  resize of another handle throws.
\<close>

lemma resize_each_all:
  "pty \<in> set ps \<Longrightarrow> PtyResize pty c r \<in> set (resize_each w c r ps)"
  by (induction ps) (auto split: option.splits)

lemma resizeAllPTYs_all:
  "pty \<in> set (activePTYs m) \<Longrightarrow> PtyResize pty c r \<in> set (resizeAllPTYs w m c r)"
  by (simp add: resizeAllPTYs_def resize_each_all)

subsection \<open>cleanup\<close>

text \<open>
  What \<^verbatim>\<open>cleanup\<close> does when every tracked handle releases its observers: each handle is
  killed once, in insertion order, failing kills included, and the active set ends
  empty.
\<close>

lemma destroy_each_released:
  "\<forall>p \<in> set ps. removeAllListeners w p = None \<Longrightarrow> fst (destroy_each w m ps) = Inr ()"
proof (induction ps arbitrary: m)
  case Nil
  then show ?case by simp
next
  case (Cons p ps)
  from Cons.prems have p: "removeAllListeners w p = None"
    and ps: "\<forall>q \<in> set ps. removeAllListeners w q = None" by simp_all
  have "fst (destroyPTY w m p) = Inr ()"
    using p by (cases "p \<in> set (activePTYs m)") (simp_all add: destroyPTY_untracked destroyPTY_tracked)
  then obtain m1 t1 where d: "destroyPTY w m p = (Inr (), m1, t1)"
    by (metis tuple3)
  from Cons.IH [OF ps, of m1] show ?case
    by (auto simp: d split: prod.splits)
qed

lemma destroy_each_killed:
  "\<forall>p \<in> set ps. removeAllListeners w p = None \<Longrightarrow> distinct ps \<Longrightarrow>
   set ps \<subseteq> set (activePTYs m) \<Longrightarrow> killed (snd (snd (destroy_each w m ps))) = ps"
proof (induction ps arbitrary: m)
  case Nil
  then show ?case by simp
next
  case (Cons p ps)
  from Cons.prems have p: "removeAllListeners w p = None"
    and ps: "\<forall>q \<in> set ps. removeAllListeners w q = None"
    and dist: "distinct ps" and notin: "p \<notin> set ps"
    and tracked: "p \<in> set (activePTYs m)" and sub: "set ps \<subseteq> set (activePTYs m)"
    by simp_all
  let ?m1 = "m\<lparr> activePTYs := removeAll p (activePTYs m) \<rparr>"
  have sub1: "set ps \<subseteq> set (activePTYs ?m1)" using sub notin by auto
  have d: "destroyPTY w m p =
     (Inr (), ?m1,
      PtyKill p (removeAll p (activePTYs m)) #
      (case kill w p of None \<Rightarrow> [] | Some e \<Rightarrow> [ConsoleWarn (KillFailed e)]) @
      [PtyRemoveAllListeners p])"
    using p by (simp add: destroyPTY_tracked [OF tracked])
  have k: "killed ((case kill w p of None \<Rightarrow> [] | Some e \<Rightarrow> [ConsoleWarn (KillFailed e)]) @
                   PtyRemoveAllListeners p # cs) = killed cs" for cs
    by (simp split: option.splits)
  from Cons.IH [OF ps dist sub1] show ?case
    by (auto simp: d k split: prod.splits)
qed

lemma cleanup_when_observers_release:
  assumes "\<forall>p \<in> set (activePTYs m). removeAllListeners w p = None"
  shows "fst (cleanup w m) = Inr ()"
    and "getActivePTYCount (fst (snd (cleanup w m))) = 0"
    and "distinct (activePTYs m) \<Longrightarrow> killed (snd (snd (cleanup w m))) = activePTYs m"
proof -
  obtain r m1 t where d: "destroy_each w m (activePTYs m) = (r, m1, t)"
    by (metis tuple3)
  from destroy_each_released [OF assms, of m] d have r: "r = Inr ()" by simp
  show "fst (cleanup w m) = Inr ()"
    by (simp add: cleanup_def d r)
  show "getActivePTYCount (fst (snd (cleanup w m))) = 0"
    by (simp add: cleanup_def d r getActivePTYCount_def)
  show "killed (snd (snd (cleanup w m))) = activePTYs m" if "distinct (activePTYs m)"
    using destroy_each_killed [OF assms that subset_refl] by (simp add: cleanup_def d r)
qed

text \<open>
  Claim C3 says that \<^verbatim>\<open>cleanup\<close> brings the count to 0 even when the destroy of an entry
  fails, and that such a failure does not abort the cleanup of the remaining entries.
  \<^verbatim>\<open>destroyPTY\<close> rethrows a failing release of the observers, \<^verbatim>\<open>cleanup\<close> calls it with no
  \<^verbatim>\<open>try\<close> around it, and the exception leaves the \<^verbatim>\<open>forEach\<close> before the remaining entries
  and before \<^verbatim>\<open>activePTYs.clear()\<close>. With the handles 3 and 2 tracked and a handle 3 whose
  observers cannot be released, \<^verbatim>\<open>cleanup\<close> throws, the handle 2 is never killed and the
  count is 1.
\<close>

theorem cleanup_stops_at_failed_destroy:
  "fst (cleanup example_world example_manager_32) =
     Inl (TerminalPluginError PTY_CREATION_FAILED ''Failed to destroy PTY process''
            (Some (JsError ''TypeError'' ''not a function'')) None) \<and>
   activePTYs (fst (snd (cleanup example_world example_manager_32))) = [PtyRef 2] \<and>
   getActivePTYCount (fst (snd (cleanup example_world example_manager_32))) = 1 \<and>
   snd (snd (cleanup example_world example_manager_32)) =
     [PtyKill (PtyRef 3) [PtyRef 2], PtyRemoveAllListeners (PtyRef 3)] \<and>
   killed (snd (snd (cleanup example_world example_manager_32))) = [PtyRef 3]"
proof -
  have a: "PtyRef 3 \<in> set (activePTYs example_manager_32)"
    by (simp add: example_manager_32_def)
  have "destroyPTY example_world example_manager_32 (PtyRef 3) =
     (Inl (TerminalPluginError PTY_CREATION_FAILED ''Failed to destroy PTY process''
            (Some (JsError ''TypeError'' ''not a function'')) None),
      example_manager_32\<lparr> activePTYs := [PtyRef 2] \<rparr>,
      [PtyKill (PtyRef 3) [PtyRef 2], PtyRemoveAllListeners (PtyRef 3)])"
    unfolding destroyPTY_tracked [OF a]
    by (simp add: example_world_def example_manager_32_def)
  then have "cleanup example_world example_manager_32 =
     (Inl (TerminalPluginError PTY_CREATION_FAILED ''Failed to destroy PTY process''
            (Some (JsError ''TypeError'' ''not a function'')) None),
      example_manager_32\<lparr> activePTYs := [PtyRef 2] \<rparr>,
      [PtyKill (PtyRef 3) [PtyRef 2], PtyRemoveAllListeners (PtyRef 3)])"
    by (simp add: cleanup_def example_manager_32_def)
  then show ?thesis by (simp add: getActivePTYCount_def)
qed

subsection \<open>getDefaultShell\<close>

lemma getSystemDefaultShell_value:
  "fst (getSystemDefaultShell w) =
     (case bridgeGetDefaultShell w of
        Inr s \<Rightarrow> s
      | Inl e \<Rightarrow>
          if platform w = ''win32'' then ''cmd.exe''
          else if platform w = ''darwin'' then ''/bin/zsh''
          else if platform w = ''linux'' then ''/bin/bash''
          else ''/bin/sh'')"
  by (simp add: getSystemDefaultShell_def split: sum.splits)

text \<open>
  The resolution order of \<^verbatim>\<open>getDefaultShell\<close>: a configured, non-empty shell is returned
  when the synchronous check returns true; when the check returns false the system
  default is returned; and when the check throws, so does \<^verbatim>\<open>getDefaultShell\<close>.
\<close>

lemma getDefaultShell_configured:
  assumes "settingsProvider m = Some (Some settings)" and "defaultShell settings \<noteq> []"
  shows "validateShellSync w (defaultShell settings) = Inr True \<Longrightarrow>
           fst (getDefaultShell w m) = Inr (defaultShell settings)"
    and "validateShellSync w (defaultShell settings) = Inr False \<Longrightarrow>
           fst (getDefaultShell w m) = Inr (fst (getSystemDefaultShell w))"
    and "validateShellSync w (defaultShell settings) = Inl e \<Longrightarrow>
           fst (getDefaultShell w m) = Inl e"
  using assms by (simp_all add: getDefaultShell_def split: prod.splits)

lemma getDefaultShell_unconfigured:
  assumes "settingsProvider m = None \<or> settingsProvider m = Some None \<or>
           (\<exists>settings. settingsProvider m = Some (Some settings) \<and> defaultShell settings = [])"
  shows "fst (getDefaultShell w m) = Inr (fst (getSystemDefaultShell w))"
  using assms by (auto simp: getDefaultShell_def split: prod.splits)

text \<open>
  Claim C7 says that \<^verbatim>\<open>getDefaultShell\<close> never raises. It calls the bridge's
  \<^verbatim>\<open>validateShellSync\<close> directly, not through \<^verbatim>\<open>validateShellPath\<close>, which is the method of
  this class that catches what the bridge's check throws and answers false. On the
  example host the check of the configured shell \<^verbatim>\<open>/opt/fish\<close> throws: \<^verbatim>\<open>validateShellPath\<close>
  answers false for it, and \<^verbatim>\<open>getDefaultShell\<close> throws the bridge's error instead of falling
  back to the system default \<^verbatim>\<open>/bin/bash\<close>.
\<close>

theorem getDefaultShell_raises_when_check_throws:
  "settingsProvider example_manager_fish =
     Some (Some \<lparr> defaultShell = ''/opt/fish'', shellArgs = [] \<rparr>) \<and>
   validateShellSync example_world ''/opt/fish'' = Inl (JsError ''Error'' ''EACCES'') \<and>
   validateShellPath example_world ''/opt/fish'' =
     (False, [ValidateShellSync ''/opt/fish'',
              ConsoleWarn (ShellCheckFailed (JsError ''Error'' ''EACCES''))]) \<and>
   getDefaultShell example_world example_manager_fish =
     (Inl (JsError ''Error'' ''EACCES''), [ValidateShellSync ''/opt/fish'']) \<and>
   getSystemDefaultShell example_world = (''/bin/bash'', [BridgeGetDefaultShell])"
  by (simp add: example_manager_fish_def example_world_def validateShellPath_def
        getDefaultShell_def getSystemDefaultShell_def)

subsection \<open>findAvailableShell\<close>

lemma probe_shells_none:
  "\<forall>c \<in> set cs. validateShell w c \<noteq> Inr True \<Longrightarrow>
   probe_shells w cs = (None, map ValidateShell cs)"
proof (induction cs)
  case Nil
  then show ?case by simp
next
  case (Cons c cs)
  then have "validateShell w c \<noteq> Inr True" and "probe_shells w cs = (None, map ValidateShell cs)"
    by simp_all
  then show ?case by (simp split: sum.splits bool.splits)
qed

lemma probe_shells_found:
  "\<forall>c \<in> set pre. validateShell w c \<noteq> Inr True \<Longrightarrow> validateShell w s = Inr True \<Longrightarrow>
   probe_shells w (pre @ s # post) = (Some s, map ValidateShell (pre @ [s]))"
proof (induction pre)
  case Nil
  then show ?case by simp
next
  case (Cons c pre)
  then have "validateShell w c \<noteq> Inr True"
    and "probe_shells w (pre @ s # post) = (Some s, map ValidateShell (pre @ [s]))"
    by simp_all
  then show ?case by (simp split: sum.splits bool.splits)
qed

text \<open>
  Claim C8. \<^verbatim>\<open>findAvailableShell\<close> probes the candidates of \<^verbatim>\<open>getAlternativeShells\<close> one
  after the other in list order. At the first candidate whose asynchronous check yields
  true it returns that candidate, and the checks made are exactly those of the candidates
  up to and including it: none after it is probed. A candidate whose check throws or
  yields false is passed over, and nothing is thrown for it. When no candidate
  validates, every candidate has been probed once, in order, and the result is that of
  \<^verbatim>\<open>getDefaultShell\<close>.
\<close>

theorem findAvailableShell_first_valid:
  assumes "findAvailableShell w m = (r, t)"
  shows "(\<forall>pre s post.
            getAlternativeShells w = pre @ s # post \<and>
            (\<forall>c \<in> set pre. validateShell w c \<noteq> Inr True) \<and>
            validateShell w s = Inr True \<longrightarrow>
            r = Inr s \<and> t = GetProcess # map ValidateShell (pre @ [s])) \<and>
         ((\<forall>c \<in> set (getAlternativeShells w). validateShell w c \<noteq> Inr True) \<longrightarrow>
            r = fst (getDefaultShell w m) \<and>
            t = GetProcess # map ValidateShell (getAlternativeShells w) @ snd (getDefaultShell w m))"
proof (intro conjI allI impI)
  fix pre s post
  assume h: "getAlternativeShells w = pre @ s # post \<and>
            (\<forall>c \<in> set pre. validateShell w c \<noteq> Inr True) \<and> validateShell w s = Inr True"
  then have "probe_shells w (getAlternativeShells w) = (Some s, map ValidateShell (pre @ [s]))"
    using probe_shells_found [of pre w s post] by simp
  then have "(r, t) = (Inr s, GetProcess # map ValidateShell (pre @ [s]))"
    unfolding assms [symmetric] by (simp add: findAvailableShell_def)
  then show "r = Inr s" and "t = GetProcess # map ValidateShell (pre @ [s])" by simp_all
next
  assume "\<forall>c \<in> set (getAlternativeShells w). validateShell w c \<noteq> Inr True"
  then have "probe_shells w (getAlternativeShells w) =
               (None, map ValidateShell (getAlternativeShells w))"
    by (rule probe_shells_none)
  then have "(r, t) =
     (fst (getDefaultShell w m),
      GetProcess # map ValidateShell (getAlternativeShells w) @ snd (getDefaultShell w m))"
    unfolding assms [symmetric] by (simp add: findAvailableShell_def split: prod.splits)
  then show "r = fst (getDefaultShell w m)"
    and "t = GetProcess # map ValidateShell (getAlternativeShells w) @ snd (getDefaultShell w m)"
    by simp_all
qed

text \<open>
  On the example host the candidates are those of \<^verbatim>\<open>linux\<close>; the check of \<^verbatim>\<open>/bin/bash\<close>
  throws, that of \<^verbatim>\<open>/bin/sh\<close> succeeds, and the four candidates after it are not probed.
  With a check that rejects everything, the result is the default shell.
\<close>

theorem findAvailableShell_first_valid_witness:
  "getAlternativeShells example_world =
     [''/bin/bash''] @ ''/bin/sh'' # [''/bin/zsh'', ''/usr/bin/bash'', ''/usr/bin/sh'', ''/usr/bin/zsh''] \<and>
   validateShell example_world ''/bin/bash'' = Inl (JsError ''Error'' ''EIO'') \<and>
   validateShell example_world ''/bin/sh'' = Inr True \<and>
   findAvailableShell example_world example_manager =
     (Inr ''/bin/sh'', [GetProcess, ValidateShell ''/bin/bash'', ValidateShell ''/bin/sh'']) \<and>
   fst (findAvailableShell (example_world\<lparr> validateShell := (\<lambda>p. Inr False) \<rparr>) example_manager) =
     Inr ''/bin/bash''"
proof -
  let ?x = "findAvailableShell example_world example_manager"
  let ?w' = "example_world\<lparr> validateShell := (\<lambda>p. Inr False) \<rparr>"
  let ?y = "findAvailableShell ?w' example_manager"
  have a: "getAlternativeShells example_world =
     [''/bin/bash''] @ ''/bin/sh'' # [''/bin/zsh'', ''/usr/bin/bash'', ''/usr/bin/sh'', ''/usr/bin/zsh'']"
    by (simp add: getAlternativeShells_def example_world_def)
  have b: "validateShell example_world ''/bin/bash'' = Inl (JsError ''Error'' ''EIO'')"
    by (simp add: example_world_def)
  have c: "validateShell example_world ''/bin/sh'' = Inr True"
    by (simp add: example_world_def)
  have b': "\<forall>c \<in> set [''/bin/bash'']. validateShell example_world c \<noteq> Inr True"
    using b by simp
  from findAvailableShell_first_valid [OF prod.collapse [symmetric, of ?x]] a b' c
  have "fst ?x = Inr ''/bin/sh'' \<and>
        snd ?x = GetProcess # map ValidateShell ([''/bin/bash''] @ [''/bin/sh''])"
    by blast
  then have d: "?x = (Inr ''/bin/sh'', [GetProcess, ValidateShell ''/bin/bash'', ValidateShell ''/bin/sh''])"
    by (simp add: prod_eq_iff)
  have e: "\<forall>c \<in> set (getAlternativeShells ?w'). validateShell ?w' c \<noteq> Inr True"
    by simp
  from findAvailableShell_first_valid [OF prod.collapse [symmetric, of ?y]] e
  have "fst ?y = fst (getDefaultShell ?w' example_manager)"
    by blast
  also have "\<dots> = Inr ''/bin/bash''"
    by (simp add: getDefaultShell_def getSystemDefaultShell_def example_manager_def example_world_def)
  finally have f: "fst ?y = Inr ''/bin/bash''" .
  from a b c d f show ?thesis by blast
qed

subsection \<open>The environment of getDefaultOptions\<close>

lemma getDefaultOptions_env:
  "getDefaultOptions w m = (Inr opts, t) \<Longrightarrow> env opts = Some (utf8Env w)"
  by (auto simp: getDefaultOptions_def Let_def split: prod.splits sum.splits)

text \<open>
  Claim C9, as stated, has the builder preserve unchanged any value the base
  environment defines. The three locale entries are written \<^verbatim>\<open>baseEnv.X || default\<close>, and
  an empty string counts as false: the example host defines \<^verbatim>\<open>LANG\<close> as the empty string,
  and the environment of \<^verbatim>\<open>getDefaultOptions\<close> has \<^verbatim>\<open>zh_CN.UTF-8\<close> for it.
\<close>

theorem getDefaultOptions_replaces_empty_locale:
  "getEnvironmentVariables example_world ''LANG'' = Some '''' \<and>
   fst (getDefaultOptions example_world example_manager) =
     Inr \<lparr> shell = ''/bin/bash'', args = Some [], cwd = ''/home/u/vault'',
           env = Some (utf8Env example_world), cols = 80, rows = 24 \<rparr> \<and>
   utf8Env example_world ''LANG'' = Some ''zh_CN.UTF-8''"
  by (simp add: example_world_def example_manager_def getDefaultOptions_def getDefaultShell_def
        getSystemDefaultShell_def utf8Env_def or_default_def)

text \<open>
  Claim C9, amended. For every base environment, the environment built by
  \<^verbatim>\<open>getDefaultOptions\<close> sets each of \<^verbatim>\<open>LANG\<close>, \<^verbatim>\<open>LC_ALL\<close> and \<^verbatim>\<open>LC_CTYPE\<close> to \<^verbatim>\<open>zh_CN.UTF-8\<close>
  exactly when the base environment has no value or the empty string for it, and keeps
  any non-empty value of the base environment. On \<^verbatim>\<open>win32\<close> it also sets \<^verbatim>\<open>CHCP\<close> to
  \<^verbatim>\<open>65001\<close> and \<^verbatim>\<open>PYTHONIOENCODING\<close> to \<^verbatim>\<open>utf-8\<close>; on any other platform these two, like
  every other variable, are as in the base environment.
\<close>

theorem getDefaultOptions_utf8_environment:
  "(\<forall>opts t. getDefaultOptions w m = (Inr opts, t) \<longrightarrow> env opts = Some (utf8Env w)) \<and>
   (\<forall>k \<in> {''LANG'', ''LC_ALL'', ''LC_CTYPE''}.
      (getEnvironmentVariables w k = None \<or> getEnvironmentVariables w k = Some [] \<longrightarrow>
         utf8Env w k = Some ''zh_CN.UTF-8'') \<and>
      (\<forall>v. getEnvironmentVariables w k = Some v \<and> v \<noteq> [] \<longrightarrow> utf8Env w k = Some v)) \<and>
   (platform w = ''win32'' \<longrightarrow>
      utf8Env w ''CHCP'' = Some ''65001'' \<and> utf8Env w ''PYTHONIOENCODING'' = Some ''utf-8'') \<and>
   (platform w \<noteq> ''win32'' \<longrightarrow>
      utf8Env w ''CHCP'' = getEnvironmentVariables w ''CHCP'' \<and>
      utf8Env w ''PYTHONIOENCODING'' = getEnvironmentVariables w ''PYTHONIOENCODING'') \<and>
   (\<forall>k. k \<notin> {''LANG'', ''LC_ALL'', ''LC_CTYPE'', ''CHCP'', ''PYTHONIOENCODING''} \<longrightarrow>
      utf8Env w k = getEnvironmentVariables w k)"
proof (intro conjI)
  show "\<forall>opts t. getDefaultOptions w m = (Inr opts, t) \<longrightarrow> env opts = Some (utf8Env w)"
    using getDefaultOptions_env by blast
  show "\<forall>k \<in> {''LANG'', ''LC_ALL'', ''LC_CTYPE''}.
      (getEnvironmentVariables w k = None \<or> getEnvironmentVariables w k = Some [] \<longrightarrow>
         utf8Env w k = Some ''zh_CN.UTF-8'') \<and>
      (\<forall>v. getEnvironmentVariables w k = Some v \<and> v \<noteq> [] \<longrightarrow> utf8Env w k = Some v)"
    by (auto simp: utf8Env_def or_default_def Let_def)
  show "platform w = ''win32'' \<longrightarrow>
      utf8Env w ''CHCP'' = Some ''65001'' \<and> utf8Env w ''PYTHONIOENCODING'' = Some ''utf-8''"
    by (simp add: utf8Env_def Let_def)
  show "platform w \<noteq> ''win32'' \<longrightarrow>
      utf8Env w ''CHCP'' = getEnvironmentVariables w ''CHCP'' \<and>
      utf8Env w ''PYTHONIOENCODING'' = getEnvironmentVariables w ''PYTHONIOENCODING''"
    by (simp add: utf8Env_def Let_def)
  show "\<forall>k. k \<notin> {''LANG'', ''LC_ALL'', ''LC_CTYPE'', ''CHCP'', ''PYTHONIOENCODING''} \<longrightarrow>
      utf8Env w k = getEnvironmentVariables w k"
    by (simp add: utf8Env_def Let_def)
qed

text \<open>
  The example host defines \<^verbatim>\<open>LC_ALL\<close> as \<^verbatim>\<open>C\<close>, which is kept, and has no \<^verbatim>\<open>LC_CTYPE\<close>,
  which gets the default; being a Linux host it gets no \<^verbatim>\<open>CHCP\<close>, and with its platform
  set to \<^verbatim>\<open>win32\<close> it does.
\<close>

theorem getDefaultOptions_utf8_environment_witness:
  "getEnvironmentVariables example_world ''LC_ALL'' = Some ''C'' \<and>
   utf8Env example_world ''LC_ALL'' = Some ''C'' \<and>
   getEnvironmentVariables example_world ''LC_CTYPE'' = None \<and>
   utf8Env example_world ''LC_CTYPE'' = Some ''zh_CN.UTF-8'' \<and>
   platform example_world \<noteq> ''win32'' \<and>
   utf8Env example_world ''CHCP'' = None \<and>
   platform (example_world\<lparr> platform := ''win32'' \<rparr>) = ''win32'' \<and>
   utf8Env (example_world\<lparr> platform := ''win32'' \<rparr>) ''CHCP'' = Some ''65001'' \<and>
   utf8Env example_world ''PATH'' = Some ''/usr/bin''"
proof -
  let ?win = "example_world\<lparr> platform := ''win32'' \<rparr>"
  note lin = getDefaultOptions_utf8_environment [of example_world example_manager]
  note win = getDefaultOptions_utf8_environment [of ?win example_manager]
  note locale_vars = lin [THEN conjunct2, THEN conjunct1]
  note on_win32 = win [THEN conjunct2, THEN conjunct2, THEN conjunct1]
  note off_win32 = lin [THEN conjunct2, THEN conjunct2, THEN conjunct2, THEN conjunct1]
  note others = lin [THEN conjunct2, THEN conjunct2, THEN conjunct2, THEN conjunct2]
  have a: "getEnvironmentVariables example_world ''LC_ALL'' = Some ''C''"
    and c: "getEnvironmentVariables example_world ''LC_CTYPE'' = None"
    and e: "platform example_world \<noteq> ''win32''"
    and g: "getEnvironmentVariables example_world ''CHCP'' = None"
    and i: "getEnvironmentVariables example_world ''PATH'' = Some ''/usr/bin''"
    by (simp_all add: example_world_def)
  have h: "platform ?win = ''win32''" by simp
  have "''LC_ALL'' \<in> {''LANG'', ''LC_ALL'', ''LC_CTYPE''}" by simp
  from bspec [OF locale_vars this] a
  have b: "utf8Env example_world ''LC_ALL'' = Some ''C''" by simp
  have "''LC_CTYPE'' \<in> {''LANG'', ''LC_ALL'', ''LC_CTYPE''}" by simp
  from bspec [OF locale_vars this] c
  have d: "utf8Env example_world ''LC_CTYPE'' = Some ''zh_CN.UTF-8''" by simp
  from off_win32 e g have f: "utf8Env example_world ''CHCP'' = None" by simp
  from on_win32 h have j: "utf8Env ?win ''CHCP'' = Some ''65001''" by simp
  have "''PATH'' \<notin> {''LANG'', ''LC_ALL'', ''LC_CTYPE'', ''CHCP'', ''PYTHONIOENCODING''}" by simp
  with others [rule_format, of "''PATH''"] i
  have k: "utf8Env example_world ''PATH'' = Some ''/usr/bin''" by simp
  from a b c d e f h j k show ?thesis by simp
qed

end
